theory Spec2Isabelle
  imports Main "HOL-Library.AList" "HOL-Library.Char_ord" "HOL-Library.List_Lexorder"
begin

section \<open>Text: characters, case mapping, substring tests\<close>

text \<open>
  The query text of \<^verbatim>\<open>src/agents/query_agent.py\<close> is a Python \<^verbatim>\<open>str\<close>. It is
  modelled as a \<^typ>\<open>string\<close> read as ASCII: every character is one code point below 128.
  The character classes below are the ASCII part of what Python 3 uses for \<^verbatim>\<open>\s\<close>,
  \<^verbatim>\<open>\w\<close>, \<^verbatim>\<open>\d\<close>, \<^verbatim>\<open>str.strip\<close>, \<^verbatim>\<open>str.lower\<close>, \<^verbatim>\<open>str.upper\<close>;
  code points from 128 on are outside the model.
\<close>

definition upper_letters :: string where
  "upper_letters = ''ABCDEFGHIJKLMNOPQRSTUVWXYZ''"

definition lower_letters :: string where
  "lower_letters = ''abcdefghijklmnopqrstuvwxyz''"

definition digit_chars :: string where
  "digit_chars = ''0123456789''"

text \<open>
  Python's \<^verbatim>\<open>\s\<close> on a \<^verbatim>\<open>str\<close> pattern and \<^verbatim>\<open>str.isspace\<close>: tab, line feed,
  vertical tab, form feed, carriage return, the four separators 0x1C to 0x1F, and space.
\<close>

definition space_chars :: string where
  "space_chars = [CHR 0x09, CHR 0x0A, CHR 0x0B, CHR 0x0C, CHR 0x0D,
                  CHR 0x1C, CHR 0x1D, CHR 0x1E, CHR 0x1F, CHR '' '']"

definition is_space :: "char \<Rightarrow> bool" where
  "is_space c = (c \<in> set space_chars)"

definition is_upper :: "char \<Rightarrow> bool" where
  "is_upper c = (c \<in> set upper_letters)"

definition is_lower :: "char \<Rightarrow> bool" where
  "is_lower c = (c \<in> set lower_letters)"

definition is_alpha :: "char \<Rightarrow> bool" where
  "is_alpha c = (is_upper c \<or> is_lower c)"

definition is_digit :: "char \<Rightarrow> bool" where
  "is_digit c = (c \<in> set digit_chars)"

text \<open>\<^verbatim>\<open>\w\<close>: letters, digits and the underscore.\<close>

definition is_word :: "char \<Rightarrow> bool" where
  "is_word c = (is_alpha c \<or> is_digit c \<or> c = CHR ''_'')"

text \<open>The class \<^verbatim>\<open>[A-Za-z\s]\<close> of the name pattern.\<close>

definition is_name_char :: "char \<Rightarrow> bool" where
  "is_name_char c = (is_alpha c \<or> is_space c)"

definition lower_char :: "char \<Rightarrow> char" where
  "lower_char c = (case map_of (zip upper_letters lower_letters) c of Some d \<Rightarrow> d | None \<Rightarrow> c)"

definition upper_char :: "char \<Rightarrow> char" where
  "upper_char c = (case map_of (zip lower_letters upper_letters) c of Some d \<Rightarrow> d | None \<Rightarrow> c)"

text \<open>\<^verbatim>\<open>s.lower()\<close>, \<^verbatim>\<open>s.upper()\<close>, \<^verbatim>\<open>s.capitalize()\<close>, \<^verbatim>\<open>s.strip()\<close>.\<close>

definition lower :: "string \<Rightarrow> string" where
  "lower s = map lower_char s"

definition upper :: "string \<Rightarrow> string" where
  "upper s = map upper_char s"

definition capitalize :: "string \<Rightarrow> string" where
  "capitalize s = (case s of [] \<Rightarrow> [] | c # cs \<Rightarrow> upper_char c # map lower_char cs)"

definition strip :: "string \<Rightarrow> string" where
  "strip s = rev (dropWhile is_space (rev (dropWhile is_space s)))"

text \<open>Python's \<^verbatim>\<open>p in s\<close> on strings: \<open>p\<close> occurs in \<open>s\<close> as a contiguous run.\<close>

fun contains :: "string \<Rightarrow> string \<Rightarrow> bool" where
  "contains p [] = (p = [])"
| "contains p (c # cs) = (take (length p) (c # cs) = p \<or> contains p cs)"

text \<open>
  \<^verbatim>\<open>int(year)\<close> on a run of decimal digits and \<^verbatim>\<open>f"{year}"\<close> on the result: the
  number read in base ten, and its decimal numeral without leading zeros.
\<close>

definition digit_val :: "char \<Rightarrow> nat" where
  "digit_val c = length (takeWhile (\<lambda>d. d \<noteq> c) digit_chars)"

definition digit_char :: "nat \<Rightarrow> char" where
  "digit_char n = digit_chars ! n"

definition py_int :: "string \<Rightarrow> nat" where
  "py_int ds = foldl (\<lambda>n c. 10 * n + digit_val c) 0 ds"

fun py_str :: "nat \<Rightarrow> string" where
  "py_str n = (if n < 10 then [digit_char n] else py_str (n div 10) @ [digit_char (n mod 10)])"

declare py_str.simps [simp del]

section \<open>The regular expressions of the intent extractor\<close>

text \<open>
  \<^verbatim>\<open>re.search(pattern, s)\<close> tries the pattern at each start position from the left and
  returns the first match. None of the four patterns looks behind its start, so a match
  attempt is a function of the text from the start position on; it returns the captured
  groups.
\<close>

fun re_search :: "(string \<Rightarrow> 'a option) \<Rightarrow> string \<Rightarrow> 'a option" where
  "re_search m [] = m []"
| "re_search m (c # cs) = (case m (c # cs) of Some r \<Rightarrow> Some r | None \<Rightarrow> re_search m cs)"

text \<open>
  A greedy \<^verbatim>\<open>+\<close>: the repetition first takes the whole run of \<open>n\<close> characters of
  its class, and gives characters back one at a time, down to one, until the rest of the
  pattern matches. \<open>rest k\<close> is the attempt for the rest after \<open>k\<close> characters.
\<close>

fun greedy_plus :: "nat \<Rightarrow> (nat \<Rightarrow> 'a option) \<Rightarrow> 'a option" where
  "greedy_plus 0 rest = None"
| "greedy_plus (Suc n) rest =
     (case rest (Suc n) of Some r \<Rightarrow> Some r | None \<Rightarrow> greedy_plus n rest)"

definition run_length :: "(char \<Rightarrow> bool) \<Rightarrow> string \<Rightarrow> nat" where
  "run_length cls s = length (takeWhile cls s)"

text \<open>A literal under \<^verbatim>\<open>re.IGNORECASE\<close>, and a case-sensitive literal.\<close>

definition starts_with_ci :: "string \<Rightarrow> string \<Rightarrow> bool" where
  "starts_with_ci p s = (lower (take (length p) s) = p)"

definition starts_with :: "string \<Rightarrow> string \<Rightarrow> bool" where
  "starts_with p s = (take (length p) s = p)"

text \<open>
  \<^verbatim>\<open>(?:\?|$|\s)\<close>: a question mark, or the end of the text (\<^verbatim>\<open>$\<close> also matches
  before a final line feed), or a whitespace character.
\<close>

definition name_end :: "string \<Rightarrow> bool" where
  "name_end t = (case t of [] \<Rightarrow> True
                 | c # cs \<Rightarrow> c = CHR ''?'' \<or> (c = CHR 0x0A \<and> cs = []) \<or> is_space c)"

text \<open>
  \<^verbatim>\<open>for\s+([A-Za-z\s]+)(?:\?|$|\s)\<close>, case-sensitive; group 1. \<open>name_group\<close> is the
  part of the pattern from the group on.
\<close>

definition name_group :: "string \<Rightarrow> string option" where
  "name_group t =
     greedy_plus (run_length is_name_char t) (\<lambda>m.
       if name_end (drop m t) then Some (take m t) else None)"

definition name_at :: "string \<Rightarrow> string option" where
  "name_at s =
     (if starts_with ''for'' s then
        greedy_plus (run_length is_space (drop 3 s)) (\<lambda>k. name_group (drop (3 + k) s))
      else None)"

text \<open>\<^verbatim>\<open>in\s+(\w+)\s+region\<close> under \<^verbatim>\<open>re.IGNORECASE\<close>; group 1.\<close>

definition region_at :: "string \<Rightarrow> string option" where
  "region_at s =
     (if starts_with_ci ''in'' s then
        greedy_plus (run_length is_space (drop 2 s)) (\<lambda>k.
          let t = drop (2 + k) s in
          greedy_plus (run_length is_word t) (\<lambda>m.
            let u = drop m t in
            greedy_plus (run_length is_space u) (\<lambda>j.
              if starts_with_ci ''region'' (drop j u) then Some (take m t) else None)))
      else None)"

text \<open>\<^verbatim>\<open>in\s+([A-Z]{3})\<close>, case-sensitive; group 1.\<close>

definition currency_at :: "string \<Rightarrow> string option" where
  "currency_at s =
     (if starts_with ''in'' s then
        greedy_plus (run_length is_space (drop 2 s)) (\<lambda>k.
          let t = drop (2 + k) s in
          if 3 \<le> length t \<and> list_all is_upper (take 3 t) then Some (take 3 t) else None)
      else None)"

text \<open>
  \<^verbatim>\<open>(before|after)\s+(\d{4})\<close> under \<^verbatim>\<open>re.IGNORECASE\<close>; groups 1 and 2. The
  alternation tries \<^verbatim>\<open>before\<close> first and falls back to \<^verbatim>\<open>after\<close>.
\<close>

definition date_kw_at :: "string \<Rightarrow> string \<Rightarrow> (string \<times> string) option" where
  "date_kw_at kw s =
     (if starts_with_ci kw s then
        greedy_plus (run_length is_space (drop (length kw) s)) (\<lambda>k.
          let t = drop (length kw + k) s in
          if 4 \<le> length t \<and> list_all is_digit (take 4 t)
          then Some (take (length kw) s, take 4 t) else None)
      else None)"

definition date_at :: "string \<Rightarrow> (string \<times> string) option" where
  "date_at s = (case date_kw_at ''before'' s of Some r \<Rightarrow> Some r
                | None \<Rightarrow> date_kw_at ''after'' s)"

section \<open>Records, filter maps and pipelines\<close>

text \<open>
  A scalar of a record is a Python \<^verbatim>\<open>str\<close> or a number. Numbers are modelled as
  integers; floating-point amounts are outside the model. A Python \<^verbatim>\<open>dict\<close> is an
  association list in insertion order with distinct keys: \<^verbatim>\<open>d[k]\<close> is
  \<^term>\<open>map_of d k\<close>, and \<^verbatim>\<open>d[k] = v\<close> is \<^const>\<open>AList.update\<close>, which overwrites in
  place or appends.
\<close>

datatype pyval = PStr string | PInt int

type_synonym pyrecord = "(string \<times> pyval) list"

definition dict_set :: "('k \<times> 'v) list \<Rightarrow> 'k \<Rightarrow> 'v \<Rightarrow> ('k \<times> 'v) list" where
  "dict_set d k v = AList.update k v d"

text \<open>
  A match condition is a scalar (\<open>Direct\<close>) or a \<^verbatim>\<open>dict\<close> from operator symbols to
  operands (\<open>Ops\<close>), told apart in the source by \<^verbatim>\<open>isinstance(condition, dict)\<close>.
  The \<^verbatim>\<open>_id\<close> of a group stage is \<^verbatim>\<open>None\<close>, a string or a \<^verbatim>\<open>dict\<close> of field
  references. A stage is a \<^verbatim>\<open>dict\<close> that the interpreter dispatches on by the first of
  the keys \<^verbatim>\<open>$match\<close>, \<^verbatim>\<open>$group\<close>, \<^verbatim>\<open>$project\<close> it holds; \<open>Other\<close> is a stage
  with none of them.
\<close>

datatype condition = Direct pyval | Ops "(string \<times> pyval) list"

datatype group_id = IdNone | IdStr string | IdDict "(string \<times> string) list"

type_synonym agg_expr = "(string \<times> pyval) list"

datatype stage =
    Match "(string \<times> condition) list"
  | Group group_id "(string \<times> agg_expr) list"
  | Project "(string \<times> pyval) list"
  | Other

fun is_match :: "stage \<Rightarrow> bool" where
  "is_match (Match _) = True"
| "is_match _ = False"

section \<open>The intent extractor (\<^verbatim>\<open>src/agents/query_agent.py\<close>)\<close>

text \<open>The sex rule, lines 147 to 151 and 172 to 176: the female terms are tested first.\<close>

definition sex_of :: "string \<Rightarrow> string option" where
  "sex_of query_string =
     (if contains ''women'' (lower query_string) \<or> contains ''female'' (lower query_string)
      then Some ''Female''
      else if contains ''men'' (lower query_string) \<or> contains ''male'' (lower query_string)
      then Some ''Male''
      else None)"

text \<open>\<^verbatim>\<open>_parse_filters\<close>, lines 128 to 153.\<close>

definition parse_filters :: "string \<Rightarrow> pyrecord" where
  "parse_filters query_string =
     (let filters = [];
          filters = (case re_search name_at query_string of
                       Some g \<Rightarrow> dict_set filters ''user_name'' (PStr (strip g))
                     | None \<Rightarrow> filters);
          filters = (case re_search region_at query_string of
                       Some g \<Rightarrow> dict_set filters ''region'' (PStr (capitalize g))
                     | None \<Rightarrow> filters);
          filters = (case re_search currency_at query_string of
                       Some g \<Rightarrow> dict_set filters ''currency'' (PStr (upper g))
                     | None \<Rightarrow> filters);
          filters = (case sex_of query_string of
                       Some x \<Rightarrow> dict_set filters ''sex'' (PStr x)
                     | None \<Rightarrow> filters)
      in filters)"

text \<open>
  The date rule, lines 179 to 186: the year is converted by \<^verbatim>\<open>int\<close> and formatted
  back into the operand.
\<close>

definition date_condition :: "string \<times> string \<Rightarrow> condition" where
  "date_condition m =
     (case m of (comparison, year) \<Rightarrow>
        if lower comparison = ''before''
        then Ops [(''$lt'', PStr (py_str (py_int year) @ ''-01-01''))]
        else Ops [(''$gte'', PStr (py_str (py_int year) @ ''-01-01''))])"

text \<open>The contents of \<^verbatim>\<open>match_stage["$match"]\<close> built by lines 160 to 186.\<close>

definition match_conditions :: "string \<Rightarrow> (string \<times> condition) list" where
  "match_conditions query_string =
     (let m = [];
          m = (case re_search region_at query_string of
                 Some g \<Rightarrow> dict_set m ''region'' (Direct (PStr (capitalize g)))
               | None \<Rightarrow> m);
          m = (case re_search currency_at query_string of
                 Some g \<Rightarrow> dict_set m ''currency'' (Direct (PStr (upper g)))
               | None \<Rightarrow> m);
          m = (case sex_of query_string of
                 Some x \<Rightarrow> dict_set m ''sex'' (Direct (PStr x))
               | None \<Rightarrow> m);
          m = (case re_search date_at query_string of
                 Some d \<Rightarrow> dict_set m ''disbursed_date'' (date_condition d)
               | None \<Rightarrow> m)
      in m)"

definition average_stage :: stage where
  "average_stage = Group IdNone [(''average_loan'', [(''$avg'', PStr ''$loan_amount'')])]"

definition total_stage :: "string \<Rightarrow> stage" where
  "total_stage field = Group IdNone [(''total_amount'', [(''$sum'', PStr (''$'' @ field))])]"

definition grouped_stage :: "(string \<times> string) list \<Rightarrow> stage" where
  "grouped_stage group_fields =
     Group (IdDict group_fields)
       [(''total_amount'', [(''$sum'', PStr ''$loan_amount'')]),
        (''count'', [(''$sum'', PInt 1)])]"

definition count_stage :: stage where
  "count_stage = Group IdNone [(''count'', [(''$sum'', PInt 1)])]"

text \<open>\<^verbatim>\<open>_build_pipeline\<close>, lines 155 to 243.\<close>

definition build_pipeline :: "string \<Rightarrow> stage list" where
  "build_pipeline query_string =
     (let m = match_conditions query_string;
          pipeline = (if m \<noteq> [] then [Match m] else []);
          q = lower query_string;
          pipeline =
            (if contains ''average'' q \<or> contains ''avg'' q then pipeline @ [average_stage]
             else if contains ''total'' q \<or> contains ''sum'' q then
               (let field = (if contains ''pending'' q then ''pending'' else ''loan_amount'')
                in pipeline @ [total_stage field])
             else if contains ''group'' q then
               (let group_fields = [];
                    group_fields = (if contains ''region'' q
                                    then dict_set group_fields ''region'' ''$region''
                                    else group_fields);
                    group_fields = (if contains ''gender'' q \<or> contains ''sex'' q
                                    then dict_set group_fields ''sex'' ''$sex''
                                    else group_fields)
                in if group_fields \<noteq> [] then pipeline @ [grouped_stage group_fields]
                   else pipeline)
             else pipeline);
          pipeline =
            (if length pipeline = 0 \<or> (length pipeline = 1 \<and> is_match (pipeline ! 0))
             then pipeline @ [count_stage] else pipeline)
      in pipeline)"

section \<open>The record store (\<^verbatim>\<open>src/db/mock_db.py\<close>)\<close>

text \<open>
  \<^verbatim>\<open>LoanDatabase\<close> holds the list \<^verbatim>\<open>self.data\<close>. What \<^verbatim>\<open>_generate_mock_data\<close>
  puts there is random; the store is a parameter of everything below.
\<close>

record loan_database =
  data :: "pyrecord list"

text \<open>
  The inner loop of \<^verbatim>\<open>find\<close>, lines 96 to 100: a key that the record lacks, or holds
  with another value, ends the loop with \<^verbatim>\<open>match = False\<close>.
\<close>

fun record_matches :: "pyrecord \<Rightarrow> pyrecord \<Rightarrow> bool" where
  "record_matches [] record = True"
| "record_matches ((key, val) # rest) record =
     (if map_of record key = None \<or> map_of record key \<noteq> Some val then False
      else record_matches rest record)"

text \<open>\<^verbatim>\<open>find\<close>, lines 89 to 104; \<open>None\<close> is the default argument.\<close>

fun find_db :: "loan_database \<Rightarrow> pyrecord option \<Rightarrow> pyrecord list" where
  "find_db db None = data db"
| "find_db db (Some filter_dict) = filter (record_matches filter_dict) (data db)"

section \<open>The data frame operations that \<^verbatim>\<open>aggregate\<close> calls\<close>

text \<open>
  \<^verbatim>\<open>aggregate\<close> works on a pandas \<^verbatim>\<open>DataFrame\<close>. The frame is modelled by its column
  labels and its rows; a cell is \<open>None\<close> where the record had no such key (pandas stores
  NaN there). \<^verbatim>\<open>pd.DataFrame(records)\<close> takes the columns in the order in which the keys
  first appear; \<^verbatim>\<open>to_dict('records')\<close> gives the rows back as dictionaries.

  Each column has a type that pandas infers when the frame is built and keeps when rows are
  filtered out: a numeric one (\<^verbatim>\<open>int64\<close>, or \<^verbatim>\<open>float64\<close> when a record lacks the
  key) when no record holds a string under the key, and \<^verbatim>\<open>object\<close> otherwise.
\<close>

type_synonym row = "(string \<times> pyval option) list"

datatype dtype = Numeric | Object

record frame =
  cols :: "string list"
  kinds :: "(string \<times> dtype) list"
  rws :: "row list"

datatype exn = KeyError | TypeError | GroupByError

definition first_seen :: "string list \<Rightarrow> string list" where
  "first_seen xs = rev (remdups (rev xs))"

fun holds_string :: "string \<Rightarrow> pyrecord \<Rightarrow> bool" where
  "holds_string c r = (case map_of r c of Some (PStr x) \<Rightarrow> True | _ \<Rightarrow> False)"

definition column_kind :: "pyrecord list \<Rightarrow> string \<Rightarrow> dtype" where
  "column_kind records c = (if list_ex (holds_string c) records then Object else Numeric)"

definition DataFrame :: "pyrecord list \<Rightarrow> frame" where
  "DataFrame records =
     (let cs = first_seen (concat (map (map fst) records))
      in \<lparr>cols = cs,
          kinds = map (\<lambda>c. (c, column_kind records c)) cs,
          rws = map (\<lambda>r. map (\<lambda>c. (c, map_of r c)) cs) records\<rparr>)"

definition kind_of :: "frame \<Rightarrow> string \<Rightarrow> dtype" where
  "kind_of result c = (case map_of (kinds result) c of Some k \<Rightarrow> k | None \<Rightarrow> Object)"

definition to_dict_records :: "frame \<Rightarrow> row list" where
  "to_dict_records result = rws result"

definition cell_of :: "row \<Rightarrow> string \<Rightarrow> pyval option" where
  "cell_of r c = (case map_of r c of Some x \<Rightarrow> x | None \<Rightarrow> None)"

text \<open>
  The element-wise comparison of a cell with a scalar. Equality of values of different
  types is false; an ordering between a string and a number raises \<^verbatim>\<open>TypeError\<close>; a
  missing cell compares false. Strings are ordered lexicographically by code point.
\<close>

datatype cmp = Eq | Gt | Ge | Lt | Le

fun cmp_val :: "cmp \<Rightarrow> pyval \<Rightarrow> pyval \<Rightarrow> exn + bool" where
  "cmp_val Eq x y = Inr (x = y)"
| "cmp_val Gt (PInt a) (PInt b) = Inr (b < a)"
| "cmp_val Ge (PInt a) (PInt b) = Inr (b \<le> a)"
| "cmp_val Lt (PInt a) (PInt b) = Inr (a < b)"
| "cmp_val Le (PInt a) (PInt b) = Inr (a \<le> b)"
| "cmp_val Gt (PStr a) (PStr b) = Inr (b < a)"
| "cmp_val Ge (PStr a) (PStr b) = Inr (b \<le> a)"
| "cmp_val Lt (PStr a) (PStr b) = Inr (a < b)"
| "cmp_val Le (PStr a) (PStr b) = Inr (a \<le> b)"
| "cmp_val c x y = Inl TypeError"

fun cmp_cell :: "cmp \<Rightarrow> pyval option \<Rightarrow> pyval \<Rightarrow> exn + bool" where
  "cmp_cell c None v = Inr False"
| "cmp_cell c (Some x) v = cmp_val c x v"

fun keep_rows :: "(row \<Rightarrow> exn + bool) \<Rightarrow> row list \<Rightarrow> exn + row list" where
  "keep_rows p [] = Inr []"
| "keep_rows p (r # rs) =
     (case p r of Inl e \<Rightarrow> Inl e
      | Inr b \<Rightarrow> (case keep_rows p rs of Inl e \<Rightarrow> Inl e
                  | Inr ks \<Rightarrow> Inr (if b then r # ks else ks)))"

text \<open>
  \<^verbatim>\<open>result[result[field] <op> value]\<close>: \<^verbatim>\<open>result[field]\<close> raises \<^verbatim>\<open>KeyError\<close>
  when the frame has no such column. An ordering of a numeric column against a string is
  refused by the type of the column: pandas raises \<^verbatim>\<open>TypeError\<close> whatever rows the
  frame holds, also when it holds none. In every other case the cells are compared one by
  one and the rows whose cell passes are kept.
\<close>

fun is_str :: "pyval \<Rightarrow> bool" where
  "is_str (PStr x) = True"
| "is_str (PInt n) = False"

definition select_where :: "frame \<Rightarrow> string \<Rightarrow> cmp \<Rightarrow> pyval \<Rightarrow> exn + frame" where
  "select_where result field c v =
     (if field \<in> set (cols result) then
        (if c \<noteq> Eq \<and> kind_of result field = Numeric \<and> is_str v then Inl TypeError
         else (case keep_rows (\<lambda>r. cmp_cell c (cell_of r field) v) (rws result) of
                 Inl e \<Rightarrow> Inl e
               | Inr ks \<Rightarrow> Inr (result\<lparr>rws := ks\<rparr>)))
      else Inl KeyError)"

text \<open>\<^verbatim>\<open>result[include_fields]\<close>: the listed columns, \<^verbatim>\<open>KeyError\<close> when one is missing.\<close>

definition select_columns :: "frame \<Rightarrow> string list \<Rightarrow> exn + frame" where
  "select_columns result include_fields =
     (if list_all (\<lambda>c. c \<in> set (cols result)) include_fields
      then Inr \<lparr>cols = include_fields,
                kinds = map (\<lambda>c. (c, kind_of result c)) include_fields,
                rws = map (\<lambda>r. map (\<lambda>c. (c, cell_of r c)) include_fields) (rws result)\<rparr>
      else Inl KeyError)"

text \<open>
  \<^verbatim>\<open>result.groupby(group_cols).agg(**agg_dict).reset_index()\<close>. The keyword arguments of
  \<^verbatim>\<open>agg\<close> are pandas' named aggregation: every value has to be a pair
  \<^verbatim>\<open>(column, aggfunc)\<close> whose first component is a column of the frame, and there has to
  be at least one. When a value is not a pair, or none is given, pandas raises
  \<^verbatim>\<open>TypeError\<close> (\<^verbatim>\<open>Must provide 'func' or tuples of '(column, aggfunc)\<close>); when a
  pair names a column that the frame does not have, it raises \<^verbatim>\<open>KeyError\<close>
  (\<^verbatim>\<open>SpecificationError\<close> in older versions); and \<^verbatim>\<open>groupby\<close> may already have
  rejected the keys with an exception of its own. \<open>GroupByError\<close> stands for whichever of
  these exceptions is raised: in all these cases the call does not return.

  What pandas computes for a well-formed named aggregation (its own check of the group
  keys, the partition, the aggregate functions, \<^verbatim>\<open>reset_index\<close>) is not modelled: it is
  the parameter \<open>E\<close> of the interpreter, and every statement below that mentions \<open>E\<close>
  holds for every \<open>E\<close>.
\<close>

datatype agg_entry = AggName string | AggPair string pyval

type_synonym agg_dict = "(string \<times> agg_entry) list"

type_synonym engine = "frame \<Rightarrow> string option list \<Rightarrow> agg_dict \<Rightarrow> exn + frame"

fun names_column :: "frame \<Rightarrow> string \<times> agg_entry \<Rightarrow> bool" where
  "names_column result (output_field, AggPair column aggfunc) = (column \<in> set (cols result))"
| "names_column result (output_field, AggName aggfunc) = False"

definition named_aggregation :: "frame \<Rightarrow> agg_dict \<Rightarrow> bool" where
  "named_aggregation result agg_dict =
     (agg_dict \<noteq> [] \<and> list_all (names_column result) agg_dict)"

definition groupby_agg :: "engine \<Rightarrow> frame \<Rightarrow> string option list \<Rightarrow> agg_dict \<Rightarrow> exn + frame" where
  "groupby_agg E result group_cols agg_dict =
     (if named_aggregation result agg_dict then E result group_cols agg_dict
      else Inl GroupByError)"

section \<open>The pipeline interpreter (\<^verbatim>\<open>aggregate\<close>, lines 106 to 166)\<close>

text \<open>
  The operator chain of lines 120 to 129. It has no final \<^verbatim>\<open>else\<close>: a symbol that is
  none of the five leaves \<^verbatim>\<open>result\<close> as it is.
\<close>

definition op_cmp :: "string \<Rightarrow> cmp option" where
  "op_cmp op =
     (if op = ''$eq'' then Some Eq
      else if op = ''$gt'' then Some Gt
      else if op = ''$gte'' then Some Ge
      else if op = ''$lt'' then Some Lt
      else if op = ''$lte'' then Some Le
      else None)"

fun apply_ops :: "frame \<Rightarrow> string \<Rightarrow> (string \<times> pyval) list \<Rightarrow> exn + frame" where
  "apply_ops result field [] = Inr result"
| "apply_ops result field ((op, v) # rest) =
     (case op_cmp op of
        None \<Rightarrow> apply_ops result field rest
      | Some c \<Rightarrow> (case select_where result field c v of
                    Inl e \<Rightarrow> Inl e
                  | Inr r \<Rightarrow> apply_ops r field rest))"

fun apply_match :: "frame \<Rightarrow> (string \<times> condition) list \<Rightarrow> exn + frame" where
  "apply_match result [] = Inr result"
| "apply_match result ((field, Ops ops) # rest) =
     (case apply_ops result field ops of
        Inl e \<Rightarrow> Inl e
      | Inr r \<Rightarrow> apply_match r rest)"
| "apply_match result ((field, Direct v) # rest) =
     (case select_where result field Eq v of
        Inl e \<Rightarrow> Inl e
      | Inr r \<Rightarrow> apply_match r rest)"

text \<open>
  Lines 147 to 156: the aggregation dictionary. \<^verbatim>\<open>$sum\<close> of the constant 1 becomes the
  string \<^verbatim>\<open>"count"\<close>, \<^verbatim>\<open>$sum\<close> of anything else the pair \<^verbatim>\<open>("sum", field_expr)\<close>,
  \<^verbatim>\<open>$avg\<close> the pair \<^verbatim>\<open>("mean", field_expr)\<close>; any other function name adds nothing.
\<close>

fun agg_ops :: "agg_dict \<Rightarrow> string \<Rightarrow> agg_expr \<Rightarrow> agg_dict" where
  "agg_ops agg_dict output_field [] = agg_dict"
| "agg_ops agg_dict output_field ((op, field_expr) # rest) =
     (if op = ''$sum'' then
        (if field_expr = PInt 1
         then agg_ops (dict_set agg_dict output_field (AggName ''count'')) output_field rest
         else agg_ops (dict_set agg_dict output_field (AggPair ''sum'' field_expr))
                output_field rest)
      else if op = ''$avg'' then
        agg_ops (dict_set agg_dict output_field (AggPair ''mean'' field_expr)) output_field rest
      else agg_ops agg_dict output_field rest)"

fun build_agg_dict :: "agg_dict \<Rightarrow> (string \<times> agg_expr) list \<Rightarrow> agg_dict" where
  "build_agg_dict agg_dict [] = agg_dict"
| "build_agg_dict agg_dict ((output_field, agg_expr) # rest) =
     build_agg_dict (agg_ops agg_dict output_field agg_expr) rest"

text \<open>Lines 139 to 144: the group columns.\<close>

fun group_cols_of :: "group_id \<Rightarrow> string option list" where
  "group_cols_of (IdDict group_by) = map (\<lambda>kv. Some (snd kv)) group_by"
| "group_cols_of (IdStr group_by) = [Some group_by]"
| "group_cols_of IdNone = [None]"

fun run_stage :: "engine \<Rightarrow> frame \<Rightarrow> stage \<Rightarrow> exn + frame" where
  "run_stage E result (Match conditions) = apply_match result conditions"
| "run_stage E result (Group group_by aggs) =
     groupby_agg E result (group_cols_of group_by) (build_agg_dict [] aggs)"
| "run_stage E result (Project project_fields) =
     select_columns result (map fst (filter (\<lambda>kv. snd kv = PInt 1) project_fields))"
| "run_stage E result Other = Inr result"

fun run_stages :: "engine \<Rightarrow> frame \<Rightarrow> stage list \<Rightarrow> exn + frame" where
  "run_stages E result [] = Inr result"
| "run_stages E result (stage # rest) =
     (case run_stage E result stage of
        Inl e \<Rightarrow> Inl e
      | Inr r \<Rightarrow> run_stages E r rest)"

definition aggregate :: "engine \<Rightarrow> loan_database \<Rightarrow> stage list \<Rightarrow> exn + row list" where
  "aggregate E db pipeline =
     (case run_stages E (DataFrame (data db)) pipeline of
        Inl e \<Rightarrow> Inl e
      | Inr result \<Rightarrow> Inr (to_dict_records result))"

section \<open>The two tools of the agent (lines 100 to 118)\<close>

text \<open>
  Both tools return a string: the JSON text of the result, or, from the
  \<^verbatim>\<open>except Exception\<close> branch, an error text built from the exception. The two kinds of
  string are kept apart as \<open>Json\<close> and \<open>ErrorText\<close>; \<^verbatim>\<open>json.dumps\<close> is taken to
  succeed on the records it is given. The store is threaded through as state: each tool
  returns the store it leaves behind. \<^verbatim>\<open>find\<close> raises nothing, so \<^verbatim>\<open>_find_loans\<close>
  has no error branch to take.
\<close>

datatype 'a tool_output = Json 'a | ErrorText exn

definition find_loans :: "string \<Rightarrow> loan_database \<Rightarrow> pyrecord list tool_output \<times> loan_database" where
  "find_loans query_string db =
     (let filter_dict = parse_filters query_string;
          results = find_db db (Some filter_dict)
      in (Json results, db))"

definition aggregate_loans ::
    "engine \<Rightarrow> string \<Rightarrow> loan_database \<Rightarrow> row list tool_output \<times> loan_database" where
  "aggregate_loans E query_string db =
     (let pipeline = build_pipeline query_string
      in case aggregate E db pipeline of
           Inr results \<Rightarrow> (Json results, db)
         | Inl e \<Rightarrow> (ErrorText e, db))"

section \<open>Pipelines without unknown symbols\<close>

text \<open>
  What is left of a pipeline when every operator entry whose symbol is none of the five
  comparison symbols, and every aggregate entry whose function name is neither
  \<^verbatim>\<open>$sum\<close> nor \<^verbatim>\<open>$avg\<close>, is taken out, wherever it stands.
\<close>

definition known_operator :: "string \<times> pyval \<Rightarrow> bool" where
  "known_operator entry = (fst entry \<in> set [''$eq'', ''$gt'', ''$gte'', ''$lt'', ''$lte''])"

definition known_function :: "string \<times> pyval \<Rightarrow> bool" where
  "known_function entry = (fst entry \<in> set [''$sum'', ''$avg''])"

fun known_condition :: "string \<times> condition \<Rightarrow> string \<times> condition" where
  "known_condition (field, Ops ops) = (field, Ops (filter known_operator ops))"
| "known_condition (field, Direct v) = (field, Direct v)"

fun known_aggregate :: "string \<times> agg_expr \<Rightarrow> string \<times> agg_expr" where
  "known_aggregate (output_field, agg_expr) = (output_field, filter known_function agg_expr)"

fun known_only :: "stage \<Rightarrow> stage" where
  "known_only (Match conditions) = Match (map known_condition conditions)"
| "known_only (Group group_by aggs) = Group group_by (map known_aggregate aggs)"
| "known_only (Project project_fields) = Project project_fields"
| "known_only Other = Other"

section \<open>The objects behind the store\<close>

text \<open>
  In the running program \<^verbatim>\<open>self.data\<close> is a list object whose items are references to
  dictionary objects, and a call of a tool leaves new objects behind. \<^verbatim>\<open>find\<close> returns
  \<^verbatim>\<open>self.data\<close> itself when it is given no filter, and otherwise a new list
  (\<^verbatim>\<open>results = []\<close>) to which it appends references to the very dictionaries of the
  store. The runtime state is the object memory, the next free address and the address of
  \<^verbatim>\<open>self.data\<close>. The objects that pandas builds and drops inside \<^verbatim>\<open>aggregate\<close> are
  not kept; the list that \<^verbatim>\<open>to_dict('records')\<close> returns is.
\<close>

type_synonym addr = nat

datatype pyobj = DictObj pyrecord | ListObj "addr list" | RowsObj "row list"

record runtime =
  objs :: "addr \<Rightarrow> pyobj option"
  next_addr :: addr
  self_data :: addr

definition alloc :: "pyobj \<Rightarrow> runtime \<Rightarrow> addr \<times> runtime" where
  "alloc ob s =
     (next_addr s, s\<lparr>objs := (objs s)(next_addr s \<mapsto> ob), next_addr := Suc (next_addr s)\<rparr>)"

definition list_items :: "runtime \<Rightarrow> addr \<Rightarrow> addr list" where
  "list_items s a = (case objs s a of Some (ListObj xs) \<Rightarrow> xs | _ \<Rightarrow> [])"

definition dict_at :: "runtime \<Rightarrow> addr \<Rightarrow> pyrecord" where
  "dict_at s a = (case objs s a of Some (DictObj r) \<Rightarrow> r | _ \<Rightarrow> [])"

definition rows_at :: "runtime \<Rightarrow> addr \<Rightarrow> row list" where
  "rows_at s a = (case objs s a of Some (RowsObj rs) \<Rightarrow> rs | _ \<Rightarrow> [])"

text \<open>\<^verbatim>\<open>results.append(record)\<close>: the list object is changed in place.\<close>

definition list_append :: "addr \<Rightarrow> addr \<Rightarrow> runtime \<Rightarrow> runtime" where
  "list_append a x s = s\<lparr>objs := (objs s)(a \<mapsto> ListObj (list_items s a @ [x]))\<rparr>"

text \<open>The records of the store as the program sees them through \<^verbatim>\<open>self.data\<close>.\<close>

definition store_data :: "runtime \<Rightarrow> pyrecord list" where
  "store_data s = map (dict_at s) (list_items s (self_data s))"

text \<open>
  The loop of \<^verbatim>\<open>find\<close>, lines 95 to 102, over the references held by \<^verbatim>\<open>self.data\<close>,
  and \<^verbatim>\<open>find\<close> itself; the result is a reference. The loop runs over the items that
  \<^verbatim>\<open>self.data\<close> holds when it starts: \<^verbatim>\<open>results\<close> is a new object, so the appends do
  not reach the list that is being read.
\<close>

fun find_loop :: "pyrecord \<Rightarrow> addr \<Rightarrow> addr list \<Rightarrow> runtime \<Rightarrow> runtime" where
  "find_loop filter_dict results [] s = s"
| "find_loop filter_dict results (record # rest) s =
     find_loop filter_dict results rest
       (if record_matches filter_dict (dict_at s record) then list_append results record s
        else s)"

fun find_rt :: "pyrecord option \<Rightarrow> runtime \<Rightarrow> addr \<times> runtime" where
  "find_rt None s = (self_data s, s)"
| "find_rt (Some filter_dict) s =
     (case alloc (ListObj []) s of
        (results, s1) \<Rightarrow>
          (results, find_loop filter_dict results (list_items s1 (self_data s1)) s1))"

text \<open>\<^verbatim>\<open>json.dumps\<close> of a list of dictionaries reads the objects that the list refers to.\<close>

definition json_dumps :: "runtime \<Rightarrow> addr \<Rightarrow> pyrecord list" where
  "json_dumps s a = map (dict_at s) (list_items s a)"

definition find_loans_rt :: "string \<Rightarrow> runtime \<Rightarrow> pyrecord list tool_output \<times> runtime" where
  "find_loans_rt query_string s =
     (let filter_dict = parse_filters query_string
      in case find_rt (Some filter_dict) s of
           (results, s1) \<Rightarrow> (Json (json_dumps s1 results), s1))"

text \<open>
  \<^verbatim>\<open>aggregate\<close> reads the store into a frame, runs the stages on the frame, and returns
  the new list that \<^verbatim>\<open>to_dict('records')\<close> builds; an exception leaves no result.
\<close>

definition aggregate_rt :: "engine \<Rightarrow> stage list \<Rightarrow> runtime \<Rightarrow> (exn + addr) \<times> runtime" where
  "aggregate_rt E pipeline s =
     (case run_stages E (DataFrame (store_data s)) pipeline of
        Inl e \<Rightarrow> (Inl e, s)
      | Inr result \<Rightarrow>
          (case alloc (RowsObj (to_dict_records result)) s of
             (a, s1) \<Rightarrow> (Inr a, s1)))"

definition aggregate_loans_rt ::
    "engine \<Rightarrow> string \<Rightarrow> runtime \<Rightarrow> row list tool_output \<times> runtime" where
  "aggregate_loans_rt E query_string s =
     (let pipeline = build_pipeline query_string
      in case aggregate_rt E pipeline s of
           (Inr results, s1) \<Rightarrow> (Json (rows_at s1 results), s1)
         | (Inl e, s1) \<Rightarrow> (ErrorText e, s1))"

text \<open>
  A state is well formed when \<^verbatim>\<open>self.data\<close> and the objects it refers to lie below the
  next free address, as they do in every state that allocation has produced.
\<close>

definition well_formed :: "runtime \<Rightarrow> bool" where
  "well_formed s =
     (self_data s < next_addr s
      \<and> list_all (\<lambda>a. a < next_addr s) (list_items s (self_data s)))"

section \<open>Concrete inputs\<close>

text \<open>The three-record store of the specification's scenario.\<close>

definition scenario_store :: loan_database where
  "scenario_store =
     \<lparr>data =
        [[(''region'', PStr ''Central''), (''sex'', PStr ''Female''), (''loan_amount'', PInt 22000)],
         [(''region'', PStr ''Central''), (''sex'', PStr ''Male''), (''loan_amount'', PInt 15000)],
         [(''region'', PStr ''North''), (''sex'', PStr ''Female''), (''loan_amount'', PInt 5000)]]\<rparr>"

definition empty_store :: loan_database where
  "empty_store = \<lparr>data = []\<rparr>"

text \<open>A store that has a column named \<^verbatim>\<open>sum\<close>.\<close>

definition sum_store :: loan_database where
  "sum_store = \<lparr>data = [[(''sum'', PInt 7)]]\<rparr>"

text \<open>The scenario store as objects: the list at address 0, its records at 1, 2 and 3.\<close>

definition scenario_runtime :: runtime where
  "scenario_runtime =
     \<lparr>objs = [0 \<mapsto> ListObj [1, 2, 3],
              1 \<mapsto> DictObj [(''region'', PStr ''Central''), (''sex'', PStr ''Female''),
                            (''loan_amount'', PInt 22000)],
              2 \<mapsto> DictObj [(''region'', PStr ''Central''), (''sex'', PStr ''Male''),
                            (''loan_amount'', PInt 15000)],
              3 \<mapsto> DictObj [(''region'', PStr ''North''), (''sex'', PStr ''Female''),
                            (''loan_amount'', PInt 5000)]],
      next_addr = 4,
      self_data = 0\<rparr>"

text \<open>
  A closed statement needs some engine in the place of \<open>E\<close>. This one raises nothing
  and returns the frame as it is, so an error in a statement that uses it comes from the
  check in front of the engine; the statements that use it hold for every other engine as
  well.
\<close>

definition passing_engine :: engine where
  "passing_engine result group_cols agg_dict = Inr result"

section \<open>Lemmas about the pattern combinators and the text functions\<close>



lemma greedy_plus_top:
  "0 < n \<Longrightarrow> f n = Some r \<Longrightarrow> greedy_plus n f = Some r"
  by (cases n) simp_all



lemma re_search_first:
  "\<forall>i<length pre. m (drop i (pre @ t)) = None \<Longrightarrow> m t = Some r \<Longrightarrow>
   re_search m (pre @ t) = Some r"
proof (induction pre)
  case Nil
  then show ?case by (cases t) simp_all
next
  case (Cons c pre)
  from Cons.prems(1) have here: "m (c # pre @ t) = None" by (auto dest: spec[of _ 0])
  have "\<forall>i<length pre. m (drop i (pre @ t)) = None"
  proof (intro allI impI)
    fix i assume "i < length pre"
    then have "Suc i < length (c # pre)" by simp
    with Cons.prems(1) have "m (drop (Suc i) ((c # pre) @ t)) = None" by blast
    then show "m (drop i (pre @ t)) = None" by simp
  qed
  from Cons.IH[OF this Cons.prems(2)] here show ?case by simp
qed

lemma run_length_prefix:
  "list_all cls ws \<Longrightarrow> t = [] \<or> \<not> cls (hd t) \<Longrightarrow> run_length cls (ws @ t) = length ws"
  by (induction ws) (auto simp: run_length_def takeWhile_eq_Nil_iff neq_Nil_conv)




lemma digit_not_space: "is_digit c \<Longrightarrow> \<not> is_space c"
  by (auto simp: is_digit_def is_space_def digit_chars_def space_chars_def)

lemma map_of_dict_set: "map_of (dict_set d k v) k' = (if k' = k then Some v else map_of d k')"
  by (simp add: dict_set_def update_conv')

lemma digit_roundtrip: "is_digit c \<Longrightarrow> digit_val c < 10 \<and> digit_char (digit_val c) = c"
  by (auto simp: is_digit_def digit_val_def digit_char_def digit_chars_def)

lemma digit_val_pos: "is_digit c \<Longrightarrow> c \<noteq> CHR ''0'' \<Longrightarrow> 0 < digit_val c"
  by (auto simp: is_digit_def digit_val_def digit_chars_def)

lemma py_int_snoc: "py_int (ds @ [d]) = 10 * py_int ds + digit_val d"
  by (simp add: py_int_def)

lemma py_int_pos:
  "ds \<noteq> [] \<Longrightarrow> list_all is_digit ds \<Longrightarrow> hd ds \<noteq> CHR ''0'' \<Longrightarrow> 0 < py_int ds"
proof (induction ds rule: rev_induct)
  case Nil
  then show ?case by simp
next
  case (snoc d ds)
  show ?case
  proof (cases "ds = []")
    case True
    with snoc.prems show ?thesis by (simp add: py_int_def digit_val_pos)
  next
    case False
    with snoc have "0 < py_int ds" by simp
    then show ?thesis by (simp add: py_int_snoc)
  qed
qed

lemma py_str_py_int:
  "ds \<noteq> [] \<Longrightarrow> list_all is_digit ds \<Longrightarrow> hd ds \<noteq> CHR ''0'' \<Longrightarrow> py_str (py_int ds) = ds"
proof (induction ds rule: rev_induct)
  case Nil
  then show ?case by simp
next
  case (snoc d ds)
  from snoc.prems have d: "digit_val d < 10" "digit_char (digit_val d) = d"
    by (simp_all add: digit_roundtrip)
  show ?case
  proof (cases "ds = []")
    case True
    with d show ?thesis by (simp add: py_int_def py_str.simps)
  next
    case False
    with snoc.prems have pos: "0 < py_int ds" by (simp add: py_int_pos)
    from False snoc have ih: "py_str (py_int ds) = ds" by simp
    have "\<not> py_int (ds @ [d]) < 10" using pos by (simp add: py_int_snoc)
    moreover have "py_int (ds @ [d]) div 10 = py_int ds" using d by (simp add: py_int_snoc)
    moreover have "py_int (ds @ [d]) mod 10 = digit_val d" using d by (simp add: py_int_snoc)
    ultimately show ?thesis
      using ih d by (subst py_str.simps) simp
  qed
qed

lemma lower_length: "lower kw = p \<Longrightarrow> length kw = length p"
  by (auto simp: lower_def)

lemma date_kw_at_phrase:
  assumes "lower kw = p" "ws \<noteq> []" "list_all is_space ws"
    and "length year = 4" "list_all is_digit year"
  shows "date_kw_at p (kw @ ws @ year @ post) = Some (kw, year)"
proof -
  let ?s = "kw @ ws @ year @ post"
  have len: "length kw = length p" using assms(1) by (rule lower_length)
  from assms(4) obtain y ys where y: "year = y # ys" by (cases year) auto
  with assms(5) have "\<not> is_space y" by (simp add: digit_not_space)
  with y have run: "run_length is_space (drop (length p) ?s) = length ws"
    using run_length_prefix[OF assms(3), of "year @ post"] len by simp
  have ci: "starts_with_ci p ?s" using assms(1) len by (simp add: starts_with_ci_def)
  have "0 < length ws" using assms(2) by simp
  then show ?thesis
    unfolding date_kw_at_def run
    using ci len assms(4,5)
    by (subst greedy_plus_top[where r = "(kw, year)"]) simp_all
qed

lemma after_is_not_before:
  assumes "lower kw = ''after''"
  shows "date_kw_at ''before'' (kw @ rest) = None"
proof -
  from assms obtain c cs where kw: "kw = c # cs" by (cases kw) (auto simp: lower_def)
  with assms have "lower_char c = CHR ''a''" by (simp add: lower_def)
  then have "\<not> starts_with_ci ''before'' (kw @ rest)"
    by (auto simp: starts_with_ci_def kw lower_def)
  then show ?thesis by (simp add: date_kw_at_def)
qed

lemma date_at_phrase:
  assumes "lower kw = ''before'' \<or> lower kw = ''after''" "ws \<noteq> []" "list_all is_space ws"
    and "length year = 4" "list_all is_digit year"
  shows "date_at (kw @ ws @ year @ post) = Some (kw, year)"
  using assms(1)
proof
  assume "lower kw = ''before''"
  from date_kw_at_phrase[OF this assms(2-5)] show ?thesis by (simp add: date_at_def)
next
  assume a: "lower kw = ''after''"
  from date_kw_at_phrase[OF this assms(2-5)] after_is_not_before[OF a]
  show ?thesis by (simp add: date_at_def)
qed

lemma build_pipeline_head:
  "match_conditions q \<noteq> [] \<Longrightarrow> \<exists>rest. build_pipeline q = Match (match_conditions q) # rest"
  unfolding build_pipeline_def Let_def
  by simp





lemma record_matches_iff:
  "record_matches f r \<longleftrightarrow> (\<forall>(k, v) \<in> set f. map_of r k = Some v)"
  by (induction f r rule: record_matches.induct) auto


lemma average_pipeline: "build_pipeline ''average loan amount'' = [average_stage]"
  by code_simp

lemma scenario_pipeline:
  "build_pipeline ''total loans for women in Central region'' =
     [Match [(''region'', Direct (PStr ''Central'')), (''sex'', Direct (PStr ''Female''))],
      total_stage ''loan_amount'']"
  by code_simp

lemma no_date_phrase_before:
  "\<forall>i<length ''loans disbursed ''. date_at (drop i ''loans disbursed after 2023'') = None"
  by (simp add: All_less_Suc date_at_def date_kw_at_def starts_with_ci_def lower_def
      lower_char_def upper_letters_def lower_letters_def)

subsection \<open>The longest run, trimming\<close>










subsection \<open>Skipping unknown symbols\<close>

lemma op_cmp_None_iff: "op_cmp op = None \<longleftrightarrow> \<not> known_operator (op, v)"
  by (simp add: op_cmp_def known_operator_def)

lemma apply_ops_known: "apply_ops result field ops = apply_ops result field (filter known_operator ops)"
proof (induction ops arbitrary: result)
  case Nil
  show ?case by simp
next
  case (Cons e ops)
  obtain op v where e: "e = (op, v)" by (cases e)
  show ?case
  proof (cases "known_operator (op, v)")
    case True
    then obtain c where c: "op_cmp op = Some c"
      using op_cmp_None_iff[of op v] by auto
    show ?thesis
      using Cons.IH True by (simp add: e c split: sum.split)
  next
    case False
    then have "op_cmp op = None" using op_cmp_None_iff[of op v] by simp
    then show ?thesis using Cons.IH False by (simp add: e)
  qed
qed

lemma apply_match_known:
  "apply_match result conditions = apply_match result (map known_condition conditions)"
proof (induction result conditions rule: apply_match.induct)
  case (1 result)
  show ?case by simp
next
  case (2 result field ops rest)
  then show ?case
    using apply_ops_known[of result field ops] by (simp split: sum.split)
next
  case (3 result field v rest)
  then show ?case by (simp split: sum.split)
qed

lemma agg_ops_known:
  "agg_ops d output_field e = agg_ops d output_field (filter known_function e)"
  by (induction d output_field e rule: agg_ops.induct) (simp_all add: known_function_def)

lemma build_agg_dict_known:
  "build_agg_dict d aggs = build_agg_dict d (map known_aggregate aggs)"
proof (induction aggs arbitrary: d)
  case Nil
  show ?case by simp
next
  case (Cons a aggs)
  obtain out e where a: "a = (out, e)" by (cases a)
  show ?case
    using Cons.IH agg_ops_known[of d out e] by (simp add: a)
qed

lemma run_stage_known: "run_stage E result stage = run_stage E result (known_only stage)"
proof (cases stage)
  case (Match conditions)
  then show ?thesis using apply_match_known[of result conditions] by simp
next
  case (Group group_by aggs)
  then show ?thesis using build_agg_dict_known[of "[]" aggs] by simp
qed simp_all

lemma run_stages_known:
  "run_stages E result pipeline = run_stages E result (map known_only pipeline)"
proof (induction pipeline arbitrary: result)
  case Nil
  show ?case by simp
next
  case (Cons stage pipeline)
  show ?case
    using Cons.IH run_stage_known[of E result stage] by (simp split: sum.split)
qed

subsection \<open>What a run of a tool leaves in the object memory\<close>

lemma find_loop_frame:
  "next_addr (find_loop f results items s) = next_addr s
   \<and> self_data (find_loop f results items s) = self_data s
   \<and> (\<forall>a. a \<noteq> results \<longrightarrow> objs (find_loop f results items s) a = objs s a)"
  by (induction f results items s rule: find_loop.induct) (auto simp: list_append_def)

lemma dict_at_cong: "objs t a = objs s a \<Longrightarrow> dict_at t a = dict_at s a"
  by (simp add: dict_at_def)

lemma list_items_cong: "objs t a = objs s a \<Longrightarrow> list_items t a = list_items s a"
  by (simp add: list_items_def)

lemma find_loop_items:
  assumes "results \<notin> set items" "objs s results = Some (ListObj acc)"
  shows "list_items (find_loop f results items s) results
           = acc @ filter (\<lambda>a. record_matches f (dict_at s a)) items"
  using assms
proof (induction items arbitrary: s acc)
  case Nil
  then show ?case by (simp add: list_items_def)
next
  case (Cons a items)
  from Cons.prems have ne: "a \<noteq> results" and ni: "results \<notin> set items" by auto
  show ?case
  proof (cases "record_matches f (dict_at s a)")
    case True
    let ?s = "list_append results a s"
    have o: "objs ?s results = Some (ListObj (acc @ [a]))"
      using Cons.prems(2) by (simp add: list_append_def list_items_def)
    have d: "\<And>b. b \<noteq> results \<Longrightarrow> dict_at ?s b = dict_at s b"
      by (simp add: dict_at_def list_append_def)
    have "filter (\<lambda>b. record_matches f (dict_at ?s b)) items
            = filter (\<lambda>b. record_matches f (dict_at s b)) items"
      by (rule filter_cong[OF refl]) (metis ni d)
    with Cons.IH[OF ni o] True show ?thesis by simp
  next
    case False
    with Cons.IH[OF ni Cons.prems(2)] show ?thesis by simp
  qed
qed

lemma find_rt_spec:
  assumes "well_formed s"
  shows "case find_rt (Some f) s of (results, s1) \<Rightarrow>
           json_dumps s1 results = filter (record_matches f) (store_data s)
           \<and> store_data s1 = store_data s
           \<and> next_addr s1 = Suc (next_addr s)
           \<and> well_formed s1"
proof -
  let ?n = "next_addr s"
  let ?s0 = "s\<lparr>objs := (objs s)(?n \<mapsto> ListObj []), next_addr := Suc ?n\<rparr>"
  let ?items = "list_items s (self_data s)"
  let ?s1 = "find_loop f ?n ?items ?s0"
  from assms have sd: "self_data s \<noteq> ?n" and below: "\<forall>a \<in> set ?items. a < ?n"
    by (auto simp: well_formed_def list_all_iff)
  then have fresh: "?n \<notin> set ?items" by auto
  have items0: "list_items ?s0 (self_data s) = ?items"
    using sd by (simp add: list_items_def)
  have run: "find_rt (Some f) s = (?n, ?s1)"
    by (simp add: alloc_def items0)
  have frame: "next_addr ?s1 = Suc ?n" "self_data ?s1 = self_data s"
    "\<And>a. a \<noteq> ?n \<Longrightarrow> objs ?s1 a = objs s a"
    using find_loop_frame[of f ?n ?items ?s0] by simp_all
  have dict0: "\<And>a. a \<noteq> ?n \<Longrightarrow> dict_at ?s0 a = dict_at s a"
    by (simp add: dict_at_def)
  have dict1: "\<And>a. a \<noteq> ?n \<Longrightarrow> dict_at ?s1 a = dict_at s a"
    by (simp add: dict_at_def frame(3))
  have res: "list_items ?s1 ?n = filter (\<lambda>a. record_matches f (dict_at ?s0 a)) ?items"
    using find_loop_items[OF fresh, of ?s0 "[]" f] by simp
  have res': "list_items ?s1 ?n = filter (\<lambda>a. record_matches f (dict_at s a)) ?items"
    unfolding res by (rule filter_cong[OF refl]) (metis fresh dict0)
  have "json_dumps ?s1 ?n = map (dict_at s) (filter (\<lambda>a. record_matches f (dict_at s a)) ?items)"
    unfolding json_dumps_def res' by (rule map_cong[OF refl]) (metis fresh dict1 filter_is_subset subsetD)
  then have j: "json_dumps ?s1 ?n = filter (record_matches f) (store_data s)"
    by (simp add: store_data_def filter_map comp_def)
  have items1: "list_items ?s1 (self_data s) = ?items"
    by (rule list_items_cong) (rule frame(3)[OF sd])
  have st: "store_data ?s1 = store_data s"
    unfolding store_data_def frame(2) items1 by (rule map_cong[OF refl]) (metis fresh dict1)
  have wf: "well_formed ?s1"
    unfolding well_formed_def frame(1,2) items1
    using assms by (auto simp: well_formed_def list_all_iff intro: less_SucI)
  show ?thesis
    unfolding run using j st frame(1) wf by simp
qed

lemma find_loans_rt_spec:
  assumes "well_formed s"
  shows "case find_loans_rt q s of (out, s1) \<Rightarrow>
           out = fst (find_loans q \<lparr>data = store_data s\<rparr>)
           \<and> store_data s1 = store_data s
           \<and> next_addr s1 = Suc (next_addr s)
           \<and> well_formed s1"
  using find_rt_spec[OF assms, of "parse_filters q"]
  by (auto simp: find_loans_rt_def find_loans_def Let_def split: prod.splits)

lemma alloc_frame:
  assumes "well_formed s" "alloc ob s = (a, s1)"
  shows "store_data s1 = store_data s \<and> well_formed s1 \<and> objs s1 a = Some ob
         \<and> next_addr s1 = Suc (next_addr s)"
proof -
  let ?n = "next_addr s"
  from assms(2) have a: "a = ?n" and s1: "s1 = s\<lparr>objs := (objs s)(?n \<mapsto> ob), next_addr := Suc ?n\<rparr>"
    by (auto simp: alloc_def)
  from assms(1) have sd: "self_data s \<noteq> ?n" and below: "\<forall>b \<in> set (list_items s (self_data s)). b < ?n"
    by (auto simp: well_formed_def list_all_iff)
  have items: "list_items s1 (self_data s1) = list_items s (self_data s)"
    using sd by (simp add: s1 list_items_def)
  have "store_data s1 = store_data s"
    unfolding store_data_def items using below
    by (intro map_cong refl) (auto simp: dict_at_def s1)
  moreover have "well_formed s1"
    using assms(1) unfolding well_formed_def items
    by (auto simp: s1 list_all_iff intro: less_SucI)
  ultimately show ?thesis by (simp add: a s1)
qed

lemma aggregate_loans_rt_spec:
  assumes "well_formed s"
  shows "case aggregate_loans_rt E q s of (out, s1) \<Rightarrow>
           out = fst (aggregate_loans E q \<lparr>data = store_data s\<rparr>)
           \<and> store_data s1 = store_data s
           \<and> well_formed s1"
proof (cases "run_stages E (DataFrame (store_data s)) (build_pipeline q)")
  case (Inl e)
  then show ?thesis
    using assms by (simp add: aggregate_loans_rt_def aggregate_rt_def aggregate_loans_def aggregate_def)
next
  case (Inr result)
  obtain a s1 where al: "alloc (RowsObj (to_dict_records result)) s = (a, s1)"
    by (cases "alloc (RowsObj (to_dict_records result)) s")
  from alloc_frame[OF assms al] show ?thesis
    using Inr al
    by (simp add: aggregate_loans_rt_def aggregate_rt_def aggregate_loans_def aggregate_def rows_at_def)
qed

lemma scenario_runtime_store: "store_data scenario_runtime = data scenario_store"
  by (simp add: store_data_def scenario_runtime_def list_items_def dict_at_def scenario_store_def)

lemma scenario_runtime_wf: "well_formed scenario_runtime"
  by (simp add: well_formed_def scenario_runtime_def list_items_def)

section \<open>The claims\<close>

subsection \<open>C1: average over an empty store\<close>

text \<open>
  C1. The aggregate path for the query \<^verbatim>\<open>average loan amount\<close> on an empty store is said
  to yield the single record \<^verbatim>\<open>{average_loan: 0}\<close>. On the code it yields no record: the
  tool returns its error text.
\<close>

theorem average_on_empty_store_counterexample:
  "aggregate_loans passing_engine ''average loan amount'' empty_store
     = (ErrorText GroupByError, empty_store)"
  by code_simp

text \<open>
  C1, as amended. For every store, the aggregate path for the query
  \<^verbatim>\<open>average loan amount\<close> builds the one group stage with key none and the aggregate
  \<^verbatim>\<open>average_loan\<close>, the average of \<^verbatim>\<open>loan_amount\<close>, and runs it as one grouping call
  on the frame of the store: with the group columns \<^verbatim>\<open>[None]\<close> and the aggregation
  dictionary built from the stage. The tool returns what that call gives, as JSON, or the
  error text of the exception that the call raises, and leaves the store as it was. The
  code has no rule of its own for an empty store and puts no zero record in the place of the
  result.
\<close>

theorem average_query_runs_one_grouping_call:
  "build_pipeline ''average loan amount'' = [average_stage]
   \<and> aggregate_loans E ''average loan amount'' db =
       (case groupby_agg E (DataFrame (data db)) [None]
               [(''average_loan'', AggPair ''mean'' (PStr ''$loan_amount''))] of
          Inl e \<Rightarrow> (ErrorText e, db)
        | Inr result \<Rightarrow> (Json (to_dict_records result), db))"
  by (simp add: average_pipeline aggregate_loans_def aggregate_def average_stage_def dict_set_def
      split: sum.split)

subsection \<open>C2: unknown operators and aggregate functions\<close>

text \<open>
  C2. An unknown comparison operator or an unsupported aggregate function is said to raise
  an error that reaches the caller of the aggregate entry point. The code has no such
  error. As stated the claim fails: with the operator \<^verbatim>\<open>$ne\<close> the match stage filters
  nothing and \<^verbatim>\<open>aggregate\<close> returns the record that an inequality with \<^verbatim>\<open>North\<close>
  would have removed.
\<close>

theorem unknown_operator_counterexample:
  "aggregate passing_engine \<lparr>data = [[(''region'', PStr ''North'')]]\<rparr>
     [Match [(''region'', Ops [(''$ne'', PStr ''North'')])]]
   = Inr [[(''region'', Some (PStr ''North''))]]"
  by code_simp

text \<open>
  C2, as amended. An operator entry whose symbol is none of the five known ones, and an
  aggregate entry whose function name is neither \<^verbatim>\<open>$sum\<close> nor \<^verbatim>\<open>$avg\<close>, is skipped
  wherever it stands: in any stage, in any condition or aggregate, before or after known
  entries. Every pipeline gives, on every store, exactly what it gives with all such
  entries taken out (\<open>known_only\<close>). An exception raised while the pipeline runs does not
  leave \<^verbatim>\<open>_aggregate_loans\<close>: the tool returns its error text, and the store as it was.
\<close>

theorem unknown_symbols_are_skipped:
  "aggregate E db pipeline = aggregate E db (map known_only pipeline)
   \<and> aggregate_loans E q db =
       (case aggregate E db (build_pipeline q) of
          Inl e \<Rightarrow> (ErrorText e, db)
        | Inr results \<Rightarrow> (Json results, db))"
  using run_stages_known[of E "DataFrame (data db)" pipeline]
  by (simp add: aggregate_def aggregate_loans_def split: sum.split)

text \<open>
  Two runs in which the skipping shows. On the scenario store the unknown \<^verbatim>\<open>$ne\<close>
  stands after a known operator in the second condition of the second stage, and the
  record it would have removed is returned. On a store with a column \<^verbatim>\<open>sum\<close> the
  unknown \<^verbatim>\<open>$max\<close> stands after a \<^verbatim>\<open>$sum\<close>, and the grouping call is reached as if
  it were not there.
\<close>

theorem unknown_symbols_are_skipped_witness:
  "aggregate passing_engine scenario_store
       [Other, Match [(''sex'', Direct (PStr ''Female'')),
                      (''region'', Ops [(''$eq'', PStr ''Central''), (''$ne'', PStr ''Central'')])]]
     = Inr [[(''region'', Some (PStr ''Central'')), (''sex'', Some (PStr ''Female'')),
             (''loan_amount'', Some (PInt 22000))]]
   \<and> aggregate passing_engine sum_store
       [Group IdNone [(''n'', [(''$sum'', PStr ''x''), (''$max'', PStr ''y'')])]]
     = Inr [[(''sum'', Some (PInt 7))]]
   \<and> aggregate_loans passing_engine ''average loan amount'' empty_store
     = (ErrorText GroupByError, empty_store)"
proof -
  have k1: "map known_only
       [Other, Match [(''sex'', Direct (PStr ''Female'')),
                      (''region'', Ops [(''$eq'', PStr ''Central''), (''$ne'', PStr ''Central'')])]]
     = [Other, Match [(''sex'', Direct (PStr ''Female'')),
                      (''region'', Ops [(''$eq'', PStr ''Central'')])]]"
    by (simp add: known_operator_def)
  have k2: "map known_only [Group IdNone [(''n'', [(''$sum'', PStr ''x''), (''$max'', PStr ''y'')])]]
     = [Group IdNone [(''n'', [(''$sum'', PStr ''x'')])]]"
    by (simp add: known_function_def)
  have v1: "aggregate passing_engine scenario_store
       [Other, Match [(''sex'', Direct (PStr ''Female'')),
                      (''region'', Ops [(''$eq'', PStr ''Central'')])]]
     = Inr [[(''region'', Some (PStr ''Central'')), (''sex'', Some (PStr ''Female'')),
             (''loan_amount'', Some (PInt 22000))]]"
    by code_simp
  have v2: "aggregate passing_engine sum_store [Group IdNone [(''n'', [(''$sum'', PStr ''x'')])]]
     = Inr [[(''sum'', Some (PInt 7))]]"
    by code_simp
  have v3: "aggregate passing_engine empty_store (build_pipeline ''average loan amount'')
     = Inl GroupByError"
    by code_simp
  show ?thesis
    using unknown_symbols_are_skipped[of passing_engine scenario_store
        "[Other, Match [(''sex'', Direct (PStr ''Female'')),
                      (''region'', Ops [(''$eq'', PStr ''Central''), (''$ne'', PStr ''Central'')])]]"
        "''average loan amount''"]
      unknown_symbols_are_skipped[of passing_engine sum_store
        "[Group IdNone [(''n'', [(''$sum'', PStr ''x''), (''$max'', PStr ''y'')])]]"
        "''average loan amount''"]
      unknown_symbols_are_skipped[of passing_engine empty_store "[]" "''average loan amount''"]
    unfolding k1 k2 v1 v2 v3 by simp
qed

subsection \<open>C3: counting with the key none\<close>

text \<open>
  C3. A single group stage with key none and the aggregate count is said to return the one
  record \<^verbatim>\<open>{count: N}\<close> on a store of \<open>N\<close> records. In the code the aggregation
  dictionary of that stage is \<^verbatim>\<open>{"count": "count"}\<close>, whose value is a string and not a
  \<^verbatim>\<open>(column, aggfunc)\<close> pair, so the data frame call raises on every store and for every
  engine: \<^verbatim>\<open>aggregate\<close> returns no record at all.
\<close>

theorem count_over_none_raises:
  "aggregate E db [count_stage] = Inl GroupByError"
  by (simp add: aggregate_def count_stage_def groupby_agg_def named_aggregation_def dict_set_def)

subsection \<open>C4: the scenario of the specification\<close>

text \<open>
  C4. On the three-record store the query \<^verbatim>\<open>total loans for women in Central region\<close>
  is said to build the match stage on region and sex followed by the group stage none/sum,
  and to return \<^verbatim>\<open>[{total_amount: 22000}]\<close>. The pipeline is built as said. Its
  execution raises: the aggregation dictionary is
  \<^verbatim>\<open>{"total_amount": ("sum", "$loan_amount")}\<close> and the frame has no column \<^verbatim>\<open>sum\<close>;
  the tool returns its error text.
\<close>

theorem scenario_total_for_women_raises:
  "build_pipeline ''total loans for women in Central region'' =
     [Match [(''region'', Direct (PStr ''Central'')), (''sex'', Direct (PStr ''Female''))],
      Group IdNone [(''total_amount'', [(''$sum'', PStr ''$loan_amount'')])]]
   \<and> aggregate_loans E ''total loans for women in Central region'' scenario_store
       = (ErrorText GroupByError, scenario_store)"
  by (simp add: aggregate_loans_def scenario_pipeline total_stage_def aggregate_def
      groupby_agg_def scenario_store_def named_aggregation_def dict_set_def DataFrame_def
      first_seen_def select_where_def cell_of_def)

subsection \<open>C5: find\<close>

text \<open>
  C5. For every filter map and every store, \<^verbatim>\<open>find\<close> returns exactly the records, in
  store order, in which every key of the filter map is present with the filter's value;
  with the empty filter map it returns all records; a record that lacks a key of the
  filter map is left out of the result, and nothing is raised (\<open>find_db\<close> has no error
  result).
\<close>

theorem find_returns_exact_matches:
  "find_db db (Some f) = filter (\<lambda>r. \<forall>(k, v) \<in> set f. map_of r k = Some v) (data db)
   \<and> find_db db (Some []) = data db
   \<and> ((k, v) \<in> set f \<and> map_of r k = None \<longrightarrow> r \<notin> set (find_db db (Some f)))"
proof -
  have "record_matches f = (\<lambda>r. \<forall>(k, v) \<in> set f. map_of r k = Some v)"
    by (rule ext) (rule record_matches_iff)
  then show ?thesis by fastforce
qed

theorem find_returns_exact_matches_witness:
  "find_db scenario_store (Some [(''region'', PStr ''Central''), (''sex'', PStr ''Female'')])
     = [[(''region'', PStr ''Central''), (''sex'', PStr ''Female''),
         (''loan_amount'', PInt 22000)]]
   \<and> find_db scenario_store (Some []) = data scenario_store
   \<and> [(''region'', PStr ''Central'')]
       \<notin> set (find_db scenario_store (Some [(''currency'', PStr ''USD'')]))"
proof -
  have h: "(''currency'', PStr ''USD'') \<in> set [(''currency'', PStr ''USD'')]
           \<and> map_of [(''region'', PStr ''Central'')] ''currency'' = None"
    by simp
  show ?thesis
    using find_returns_exact_matches[of scenario_store
        "[(''region'', PStr ''Central''), (''sex'', PStr ''Female'')]"]
      find_returns_exact_matches[of scenario_store "[(''currency'', PStr ''USD'')]"
        "''currency''" "PStr ''USD''" "[(''region'', PStr ''Central'')]"] h
    by (simp add: scenario_store_def)
qed

subsection \<open>C6: region and currency\<close>




subsection \<open>C7: the date rule\<close>

text \<open>
  C7. Every query that contains \<^verbatim>\<open>before YYYY\<close> is said to get a less-than condition
  on \<^verbatim>\<open>disbursed_date\<close>. The code searches once and uses the leftmost date phrase only:
  in the query below \<^verbatim>\<open>before 2023\<close> comes second and leaves no condition.
\<close>

theorem later_before_phrase_ignored:
  "build_pipeline ''loans after 2020 and before 2023'' =
     [Match [(''disbursed_date'', Ops [(''$gte'', PStr ''2020-01-01'')])], count_stage]"
  by code_simp

text \<open>
  C7, as amended. Let the leftmost date phrase of the query be \<open>kw\<close>, whitespace and four
  digits \<open>year\<close>, where \<open>kw\<close> is \<^verbatim>\<open>before\<close> or \<^verbatim>\<open>after\<close> in any letter case, and no
  date phrase starts earlier in the query. Then the pipeline starts with a match stage whose
  condition on \<^verbatim>\<open>disbursed_date\<close> is less-than for \<^verbatim>\<open>before\<close> and greater-or-equal for
  \<^verbatim>\<open>after\<close>; its operand is the year as \<^verbatim>\<open>int\<close> reads and prints it, followed by
  \<^verbatim>\<open>-01-01\<close>, which is \<open>year\<close> itself followed by \<^verbatim>\<open>-01-01\<close> when \<open>year\<close> does not
  start with the digit 0. Later date phrases add nothing.
\<close>

theorem date_rule_first_phrase:
  assumes "q = pre @ kw @ ws @ year @ post"
    and "lower kw = ''before'' \<or> lower kw = ''after''"
    and "ws \<noteq> []" "list_all is_space ws"
    and "length year = 4" "list_all is_digit year"
    and "\<forall>i<length pre. date_at (drop i q) = None"
  shows "\<exists>conds rest. build_pipeline q = Match conds # rest
           \<and> map_of conds ''disbursed_date'' =
               Some (Ops [(if lower kw = ''before'' then ''$lt'' else ''$gte'',
                           PStr (py_str (py_int year) @ ''-01-01''))])
           \<and> (hd year \<noteq> CHR ''0'' \<longrightarrow> py_str (py_int year) = year)"
proof -
  have at: "date_at (kw @ ws @ year @ post) = Some (kw, year)"
    by (rule date_at_phrase[OF assms(2-6)])
  have found: "re_search date_at q = Some (kw, year)"
    unfolding assms(1)
    by (rule re_search_first[where m = date_at, OF _ at]) (use assms(1,7) in simp)
  have cond: "map_of (match_conditions q) ''disbursed_date'' =
      Some (Ops [(if lower kw = ''before'' then ''$lt'' else ''$gte'',
                  PStr (py_str (py_int year) @ ''-01-01''))])"
    unfolding match_conditions_def Let_def found
    by (simp add: map_of_dict_set date_condition_def)
  then have "match_conditions q \<noteq> []" by auto
  from build_pipeline_head[OF this] obtain rest
    where "build_pipeline q = Match (match_conditions q) # rest" ..
  moreover have "hd year \<noteq> CHR ''0'' \<longrightarrow> py_str (py_int year) = year"
    using assms(5,6) by (auto intro: py_str_py_int)
  ultimately show ?thesis using cond by blast
qed

theorem date_rule_first_phrase_witness:
  "\<exists>conds rest. build_pipeline ''loans disbursed after 2023'' = Match conds # rest
     \<and> map_of conds ''disbursed_date'' = Some (Ops [(''$gte'', PStr ''2023-01-01'')])"
proof -
  have h1: "''loans disbursed after 2023''
              = ''loans disbursed '' @ ''after'' @ '' '' @ ''2023'' @ []"
    by simp
  have h2: "lower ''after'' = ''before'' \<or> lower ''after'' = ''after''" by code_simp
  have h3: "'' '' \<noteq> []" "list_all is_space '' ''"
    "length ''2023'' = 4" "list_all is_digit ''2023''"
    by (simp_all add: is_space_def space_chars_def is_digit_def digit_chars_def)
  have h4: "lower ''after'' \<noteq> ''before''" by code_simp
  show ?thesis
    using date_rule_first_phrase[OF h1 h2 h3 no_date_phrase_before] h4 by auto
qed

subsection \<open>C8: the personal name\<close>



subsection \<open>C9: running a tool twice\<close>

text \<open>
  C9. The claim is about the running program, whose state changes with every call: each
  run of the find tool allocates a new result list. For every query and every well-formed
  state, two runs of the find tool in succession, the second in the state that the first
  one left, return the same text, which is the JSON of the records that \<open>find_db\<close>
  selects from the store; the records reached through \<^verbatim>\<open>self.data\<close> are the same after
  each run, although each run has moved the next free address by one. The same holds of
  the aggregate tool, for every engine.
\<close>

theorem tools_leave_store_unchanged:
  assumes "well_formed s"
  shows "(case find_loans_rt q s of (out1, s1) \<Rightarrow>
            case find_loans_rt q s1 of (out2, s2) \<Rightarrow>
              out2 = out1
              \<and> out1 = fst (find_loans q \<lparr>data = store_data s\<rparr>)
              \<and> store_data s1 = store_data s \<and> store_data s2 = store_data s
              \<and> next_addr s1 = Suc (next_addr s) \<and> next_addr s2 = Suc (next_addr s1))
         \<and> (case aggregate_loans_rt E q s of (out1, s1) \<Rightarrow>
            case aggregate_loans_rt E q s1 of (out2, s2) \<Rightarrow>
              out2 = out1
              \<and> out1 = fst (aggregate_loans E q \<lparr>data = store_data s\<rparr>)
              \<and> store_data s1 = store_data s \<and> store_data s2 = store_data s)"
proof (intro conjI)
  obtain out1 s1 where r1: "find_loans_rt q s = (out1, s1)" by (cases "find_loans_rt q s")
  obtain out2 s2 where r2: "find_loans_rt q s1 = (out2, s2)" by (cases "find_loans_rt q s1")
  from find_loans_rt_spec[OF assms, of q] r1
  have a: "out1 = fst (find_loans q \<lparr>data = store_data s\<rparr>)" "store_data s1 = store_data s"
    "next_addr s1 = Suc (next_addr s)" "well_formed s1" by simp_all
  from find_loans_rt_spec[OF a(4), of q] r2
  have b: "out2 = fst (find_loans q \<lparr>data = store_data s1\<rparr>)" "store_data s2 = store_data s1"
    "next_addr s2 = Suc (next_addr s1)" by simp_all
  show "case find_loans_rt q s of (out1, s1) \<Rightarrow>
            case find_loans_rt q s1 of (out2, s2) \<Rightarrow>
              out2 = out1
              \<and> out1 = fst (find_loans q \<lparr>data = store_data s\<rparr>)
              \<and> store_data s1 = store_data s \<and> store_data s2 = store_data s
              \<and> next_addr s1 = Suc (next_addr s) \<and> next_addr s2 = Suc (next_addr s1)"
    using a b by (simp add: r1 r2)
next
  obtain out1 s1 where r1: "aggregate_loans_rt E q s = (out1, s1)"
    by (cases "aggregate_loans_rt E q s")
  obtain out2 s2 where r2: "aggregate_loans_rt E q s1 = (out2, s2)"
    by (cases "aggregate_loans_rt E q s1")
  from aggregate_loans_rt_spec[OF assms, of E q] r1
  have a: "out1 = fst (aggregate_loans E q \<lparr>data = store_data s\<rparr>)" "store_data s1 = store_data s"
    "well_formed s1" by simp_all
  from aggregate_loans_rt_spec[OF a(3), of E q] r2
  have b: "out2 = fst (aggregate_loans E q \<lparr>data = store_data s1\<rparr>)" "store_data s2 = store_data s1"
    by simp_all
  show "case aggregate_loans_rt E q s of (out1, s1) \<Rightarrow>
            case aggregate_loans_rt E q s1 of (out2, s2) \<Rightarrow>
              out2 = out1
              \<and> out1 = fst (aggregate_loans E q \<lparr>data = store_data s\<rparr>)
              \<and> store_data s1 = store_data s \<and> store_data s2 = store_data s"
    using a b by (simp add: r1 r2)
qed

theorem tools_leave_store_unchanged_witness:
  "fst (find_loans_rt ''women in Central region'' scenario_runtime)
     = Json [[(''region'', PStr ''Central''), (''sex'', PStr ''Female''),
              (''loan_amount'', PInt 22000)]]
   \<and> fst (find_loans_rt ''women in Central region''
           (snd (find_loans_rt ''women in Central region'' scenario_runtime)))
     = Json [[(''region'', PStr ''Central''), (''sex'', PStr ''Female''),
              (''loan_amount'', PInt 22000)]]
   \<and> store_data (snd (find_loans_rt ''women in Central region''
           (snd (find_loans_rt ''women in Central region'' scenario_runtime))))
     = data scenario_store
   \<and> next_addr (snd (find_loans_rt ''women in Central region''
           (snd (find_loans_rt ''women in Central region'' scenario_runtime)))) = 6
   \<and> fst (aggregate_loans_rt passing_engine ''women in Central region''
           (snd (aggregate_loans_rt passing_engine ''women in Central region'' scenario_runtime)))
     = ErrorText GroupByError
   \<and> store_data (snd (aggregate_loans_rt passing_engine ''women in Central region''
           (snd (aggregate_loans_rt passing_engine ''women in Central region'' scenario_runtime))))
     = data scenario_store"
proof -
  have f: "fst (find_loans ''women in Central region'' scenario_store)
     = Json [[(''region'', PStr ''Central''), (''sex'', PStr ''Female''),
              (''loan_amount'', PInt 22000)]]"
    by code_simp
  have a: "fst (aggregate_loans passing_engine ''women in Central region'' scenario_store)
     = ErrorText GroupByError"
    by code_simp
  have n: "next_addr scenario_runtime = 4" by (simp add: scenario_runtime_def)
  have d: "\<lparr>data = data scenario_store\<rparr> = scenario_store" by simp
  show ?thesis
    using tools_leave_store_unchanged[OF scenario_runtime_wf,
        of "''women in Central region''" passing_engine]
    by (simp add: case_prod_beta scenario_runtime_store d f a n)
qed

subsection \<open>C10: the shape of a pipeline\<close>

text \<open>
  C10. For every query the pipeline is either one group stage, or a match stage with at
  least one condition followed by one group stage. So it has one or two stages, is never
  empty, ends in a group stage, and holds a match stage only in first place.
\<close>

theorem build_pipeline_shape:
  "(\<exists>g a. build_pipeline q = [Group g a])
   \<or> (\<exists>m g a. m \<noteq> [] \<and> build_pipeline q = [Match m, Group g a])"
  unfolding build_pipeline_def Let_def average_stage_def total_stage_def grouped_stage_def
    count_stage_def
  by simp

end
